theory Spec2Isabelle
  imports Main "HOL-Library.AList"
begin

section \<open>JavaScript values and the runtime the SDK relies on\<close>

text \<open>
  The SDK of \<^verbatim>\<open>src/spectraview.js\<close> handles values that come from the host page: custom
  event payloads, the raw events of the recorder, error descriptions. They are modelled as
  a datatype of JavaScript values that keeps the cases \<^verbatim>\<open>JSON.stringify\<close> treats apart:
  functions and \<^verbatim>\<open>undefined\<close> (dropped, or \<^verbatim>\<open>undefined\<close> at top level) and BigInt values
  (a TypeError). Numbers are integers here; no claim depends on fractions.
\<close>

datatype jsval =
    JUndefined
  | JNull
  | JBool bool
  | JNum int
  | JStr string
  | JArr "jsval list"
  | JObj "(string \<times> jsval) list"
  | JFunction
  | JBigInt int

datatype js_error = TypeError | SyntaxError | RangeError

text \<open>\<^verbatim>\<open>!data\<close>: the falsy values of JavaScript.\<close>

fun falsy :: "jsval \<Rightarrow> bool" where
  "falsy JUndefined = True"
| "falsy JNull = True"
| "falsy (JBool b) = (\<not> b)"
| "falsy (JNum n) = (n = 0)"
| "falsy (JStr s) = (s = [])"
| "falsy (JBigInt n) = (n = 0)"
| "falsy _ = False"

text \<open>
  \<^verbatim>\<open>JSON.stringify\<close> followed by \<^verbatim>\<open>JSON.parse\<close>, the deep clone of \<^verbatim>\<open>sanitizeData\<close>.
  \<open>to_json\<close> gives \<open>Inl TypeError\<close> where stringify throws (a BigInt anywhere),
  \<open>Inr None\<close> where it yields \<^verbatim>\<open>undefined\<close> (a function or \<^verbatim>\<open>undefined\<close>), and the
  value that parses back otherwise: inside an array an unserialisable element becomes
  \<^verbatim>\<open>null\<close>, inside an object its property is left out.
\<close>

fun to_json :: "jsval \<Rightarrow> js_error + jsval option"
  and to_json_elems :: "jsval list \<Rightarrow> js_error + jsval list"
  and to_json_props :: "(string \<times> jsval) list \<Rightarrow> js_error + (string \<times> jsval) list"
where
  "to_json JUndefined = Inr None"
| "to_json JFunction = Inr None"
| "to_json (JBigInt n) = Inl TypeError"
| "to_json JNull = Inr (Some JNull)"
| "to_json (JBool b) = Inr (Some (JBool b))"
| "to_json (JNum n) = Inr (Some (JNum n))"
| "to_json (JStr s) = Inr (Some (JStr s))"
| "to_json (JArr xs) =
     (case to_json_elems xs of Inl e \<Rightarrow> Inl e | Inr ys \<Rightarrow> Inr (Some (JArr ys)))"
| "to_json (JObj kvs) =
     (case to_json_props kvs of Inl e \<Rightarrow> Inl e | Inr ps \<Rightarrow> Inr (Some (JObj ps)))"
| "to_json_elems [] = Inr []"
| "to_json_elems (x # xs) =
     (case to_json x of
        Inl e \<Rightarrow> Inl e
      | Inr r \<Rightarrow>
          (case to_json_elems xs of
             Inl e \<Rightarrow> Inl e
           | Inr ys \<Rightarrow> Inr ((case r of None \<Rightarrow> JNull | Some y \<Rightarrow> y) # ys)))"
| "to_json_props [] = Inr []"
| "to_json_props (kv # kvs) =
     (case to_json (snd kv) of
        Inl e \<Rightarrow> Inl e
      | Inr r \<Rightarrow>
          (case to_json_props kvs of
             Inl e \<Rightarrow> Inl e
           | Inr ps \<Rightarrow> Inr ((case r of None \<Rightarrow> [] | Some y \<Rightarrow> [(fst kv, y)]) @ ps)))"

text \<open>
  \<^verbatim>\<open>JSON.parse(JSON.stringify(data))\<close>: \<^verbatim>\<open>JSON.parse(undefined)\<close> reads the text
  "undefined" and throws a SyntaxError.
\<close>

definition json_clone :: "jsval \<Rightarrow> js_error + jsval" where
  "json_clone v =
     (case to_json v of
        Inl e \<Rightarrow> Inl e
      | Inr None \<Rightarrow> Inl SyntaxError
      | Inr (Some w) \<Rightarrow> Inr w)"

text \<open>
  The four patterns of \<^verbatim>\<open>sanitizeData\<close>, in the order of the source. The regular
  expression engine belongs to the JavaScript runtime: \<open>replace_re\<close> stands for
  \<^verbatim>\<open>String.prototype.replace(regex, replacement)\<close> and is a parameter of the model.
\<close>

datatype pattern_re = CardRe | SsnRe | EmailRe | PhoneRe

type_synonym replace_fn = "pattern_re \<Rightarrow> string \<Rightarrow> string \<Rightarrow> string"

definition patterns :: "(pattern_re \<times> string) list" where
  "patterns = [(CardRe, ''[CARD]''), (SsnRe, ''[SSN]''), (EmailRe, ''[EMAIL]''),
               (PhoneRe, ''[PHONE]'')]"

definition sanitizeString :: "replace_fn \<Rightarrow> string \<Rightarrow> string" where
  "sanitizeString replace_re v =
     foldl (\<lambda>sanitizedValue p. replace_re (fst p) (snd p) sanitizedValue) v patterns"

fun sanitizeValue :: "replace_fn \<Rightarrow> jsval \<Rightarrow> jsval"
  and sanitizeElems :: "replace_fn \<Rightarrow> jsval list \<Rightarrow> jsval list"
  and sanitizeProps :: "replace_fn \<Rightarrow> (string \<times> jsval) list \<Rightarrow> (string \<times> jsval) list"
where
  "sanitizeValue rp (JStr s) = JStr (sanitizeString rp s)"
| "sanitizeValue rp (JArr xs) = JArr (sanitizeElems rp xs)"
| "sanitizeValue rp (JObj kvs) = JObj (sanitizeProps rp kvs)"
| "sanitizeValue rp JUndefined = JUndefined"
| "sanitizeValue rp JNull = JNull"
| "sanitizeValue rp (JBool b) = JBool b"
| "sanitizeValue rp (JNum n) = JNum n"
| "sanitizeValue rp JFunction = JFunction"
| "sanitizeValue rp (JBigInt n) = JBigInt n"
| "sanitizeElems rp [] = []"
| "sanitizeElems rp (x # xs) = sanitizeValue rp x # sanitizeElems rp xs"
| "sanitizeProps rp [] = []"
| "sanitizeProps rp (kv # kvs) = (fst kv, sanitizeValue rp (snd kv)) # sanitizeProps rp kvs"

text \<open>\<^verbatim>\<open>sanitizeData(data)\<close>: no \<^verbatim>\<open>try\<close> surrounds the clone, so its exception leaves the function.\<close>

definition sanitizeData :: "replace_fn \<Rightarrow> jsval \<Rightarrow> js_error + jsval" where
  "sanitizeData rp data =
     (if falsy data then Inr data
      else (case json_clone data of
              Inl e \<Rightarrow> Inl e
            | Inr sanitized \<Rightarrow> Inr (sanitizeValue rp sanitized)))"

section \<open>Events, configuration and the durable store\<close>

text \<open>
  A visual event is the raw object the recorder emits (\<^verbatim>\<open>handleRRWebEvent\<close> stores it as
  it is), so it is a \<open>jsval\<close>. Custom events and error events are built by the SDK.
\<close>

record custom_event =
  ce_type :: string
  ce_eventType :: string
  ce_data :: jsval
  ce_timestamp :: nat
  ce_sessionId :: "string option"
  ce_url :: string
  ce_userAgent :: string
  ce_viewport :: "nat \<times> nat"

text \<open>
  \<^verbatim>\<open>{...errorData, sessionId, timestamp: errorData.timestamp || Date.now(), context}\<close>:
  the properties of \<open>errorData\<close> that the three later keys do not override stay in
  \<open>err_props\<close>.
\<close>

record error_event =
  err_props :: "(string \<times> jsval) list"
  err_sessionId :: "string option"
  err_timestamp :: jsval
  err_url :: string
  err_userAgent :: string

record config =
  apiKey :: "string option"
  apiEndpoint :: "string option"
  appId :: string
  batchSize :: nat
  flushInterval :: nat
  enableLocalStorage :: bool
  maxLocalEvents :: nat
  debug :: bool

record batch =
  b_events :: "jsval list"
  b_customEvents :: "custom_event list"
  b_errors :: "error_event list"

text \<open>
  The records of the local store: \<^verbatim>\<open>{event, sessionId, timestamp, synced}\<close> written by
  \<^verbatim>\<open>saveEventLocal\<close> and \<^verbatim>\<open>{...batch, sessionId, timestamp, retryCount}\<close> written by
  \<^verbatim>\<open>saveFailedBatch\<close>.
\<close>

datatype stored =
    StoredEvent jsval "string option" nat bool
  | StoredBatch batch "string option" nat nat

fun stored_timestamp :: "stored \<Rightarrow> nat" where
  "stored_timestamp (StoredEvent e sid t synced) = t"
| "stored_timestamp (StoredBatch b sid t retryCount) = t"

text \<open>\<^verbatim>\<open>item.synced\<close>: a batch record has no such property, which reads as falsy.\<close>

fun stored_synced :: "stored \<Rightarrow> bool" where
  "stored_synced (StoredEvent e sid t synced) = synced"
| "stored_synced (StoredBatch b sid t retryCount) = False"

text \<open>
  The localforage instance is a key-value store; \<open>keys\<close> enumerates it in the order of
  the association list. Its operations are asynchronous in the source; each of them is
  one atomic step here.
\<close>

type_synonym store = "(string \<times> stored) list"

definition setItem :: "string \<Rightarrow> stored \<Rightarrow> store \<Rightarrow> store" where
  "setItem k v st = AList.update k v st"

definition getItem :: "string \<Rightarrow> store \<Rightarrow> stored option" where
  "getItem k st = map_of st k"

definition removeItem :: "string \<Rightarrow> store \<Rightarrow> store" where
  "removeItem k st = AList.delete k st"

definition keys :: "store \<Rightarrow> string list" where
  "keys st = map fst st"

text \<open>\<^verbatim>\<open>key.startsWith(p)\<close>.\<close>

definition startsWith :: "string \<Rightarrow> string \<Rightarrow> bool" where
  "startsWith key p = (take (length p) key = p)"

text \<open>The decimal text of a number, as a template literal renders \<^verbatim>\<open>Date.now()\<close>.\<close>

fun decimal :: "nat \<Rightarrow> string" where
  "decimal n =
     (if n < 10 then [''0123456789'' ! n]
      else decimal (n div 10) @ [''0123456789'' ! (n mod 10)])"

declare decimal.simps [simp del]

text \<open>A template literal renders \<^verbatim>\<open>null\<close> as the text "null".\<close>

definition template :: "string option \<Rightarrow> string" where
  "template v = (case v of None \<Rightarrow> ''null'' | Some t \<Rightarrow> t)"

section \<open>The pipeline state\<close>

record compressed =
  is_compressed :: bool
  c_data :: "string + jsval list"

datatype metadata = FlushMeta nat nat nat nat | FinalMeta nat

record payload =
  p_sessionId :: "string option"
  p_userId :: "string option"
  p_appId :: string
  p_events :: compressed
  p_customEvents :: "custom_event list"
  p_errors :: "error_event list"
  p_metadata :: metadata

text \<open>A network call the SDK issues: \<^verbatim>\<open>fetch(url, {headers, body})\<close> or \<^verbatim>\<open>navigator.sendBeacon(url, blob)\<close>.\<close>

datatype request =
    Fetch string "(string \<times> string option) list" string
  | Beacon string string

record performanceData =
  startTime :: "nat option"
  eventCount :: nat
  errorCount :: nat
  clickCount :: nat

text \<open>
  The fields of \<^verbatim>\<open>SpectraViewSDK\<close>, and two fields for what the source leaves to the
  browser: \<open>network\<close>, the calls issued so far, and \<open>inflight\<close>, the batches of the flushes
  that wait at \<^verbatim>\<open>await fetch(...)\<close>.
\<close>

record sdk =
  config :: "config option"
  sessionId :: "string option"
  userId :: "string option"
  isRecording :: bool
  eventBuffer :: "jsval list"
  customEventBuffer :: "custom_event list"
  errorBuffer :: "error_event list"
  storage :: "store option"
  sessionMetadata :: "(string \<times> jsval) list"
  perf :: performanceData
  network :: "request list"
  inflight :: "batch list"

text \<open>
  What a handler reads from the browser when it runs: the clock, \<^verbatim>\<open>Math.random()\<close> as
  text, the page and the window, and whether the store accepts a write (a rejected
  \<^verbatim>\<open>setItem\<close>, as on exceeded quota, is caught by the source and ignored).
\<close>

record env =
  now :: nat
  random :: string
  href :: string
  userAgent :: string
  innerWidth :: nat
  innerHeight :: nat
  store_writable :: bool

text \<open>
  Library functions the SDK calls and that may throw: \<^verbatim>\<open>JSON.stringify\<close> on the events
  and on the payload, \<^verbatim>\<open>pako.deflate\<close>, \<^verbatim>\<open>String.fromCharCode.apply\<close> and \<^verbatim>\<open>btoa\<close>.
\<close>

record codec =
  stringify_events :: "jsval list \<Rightarrow> js_error + string"
  deflate :: "string \<Rightarrow> js_error + nat list"
  fromCharCode :: "nat list \<Rightarrow> js_error + string"
  btoa :: "string \<Rightarrow> js_error + string"
  stringify_payload :: "payload \<Rightarrow> js_error + string"

section \<open>Compression\<close>

text \<open>
  \<^verbatim>\<open>compressEvents(events)\<close>: each step in the \<^verbatim>\<open>try\<close> block may throw; the \<^verbatim>\<open>catch\<close>
  block logs and returns the events as they came.
\<close>

definition compressEvents :: "codec \<Rightarrow> jsval list \<Rightarrow> compressed" where
  "compressEvents cd events =
     (case stringify_events cd events of
        Inl e \<Rightarrow> \<lparr>is_compressed = False, c_data = Inr events\<rparr>
      | Inr jsonString \<Rightarrow>
          (case deflate cd jsonString of
             Inl e \<Rightarrow> \<lparr>is_compressed = False, c_data = Inr events\<rparr>
           | Inr bytes \<Rightarrow>
               (case fromCharCode cd bytes of
                  Inl e \<Rightarrow> \<lparr>is_compressed = False, c_data = Inr events\<rparr>
                | Inr chars \<Rightarrow>
                    (case btoa cd chars of
                       Inl e \<Rightarrow> \<lparr>is_compressed = False, c_data = Inr events\<rparr>
                     | Inr base64 \<Rightarrow> \<lparr>is_compressed = True, c_data = Inl base64\<rparr>))))"

section \<open>The local store\<close>

text \<open>\<^verbatim>\<open>saveFailedBatch(batch)\<close>.\<close>

definition saveFailedBatch :: "env \<Rightarrow> batch \<Rightarrow> sdk \<Rightarrow> sdk" where
  "saveFailedBatch ev b s =
     (case storage s of
        None \<Rightarrow> s
      | Some st \<Rightarrow>
          if store_writable ev
          then s\<lparr>storage := Some (setItem (''batch_'' @ decimal (now ev))
                                    (StoredBatch b (sessionId s) (now ev) 0) st)\<rparr>
          else s)"

text \<open>
  \<^verbatim>\<open>cleanOldEvents()\<close>. The loop over the keys reads \<^verbatim>\<open>item.timestamp || 0\<close>; on a key
  with no item that read throws, the \<^verbatim>\<open>catch\<close> block swallows it and nothing is removed.
  The comparator \<^verbatim>\<open>b.timestamp - a.timestamp\<close> sorts newest first, and the sort is stable.
\<close>

fun collect_items :: "string list \<Rightarrow> store \<Rightarrow> (string \<times> nat) list option" where
  "collect_items [] st = Some []"
| "collect_items (key # ks) st =
     (case getItem key st of
        None \<Rightarrow> None
      | Some item \<Rightarrow>
          (case collect_items ks st of
             None \<Rightarrow> None
           | Some items \<Rightarrow> Some ((key, stored_timestamp item) # items)))"

definition sort_newest_first :: "(string \<times> nat) list \<Rightarrow> (string \<times> nat) list" where
  "sort_newest_first items = sort_key (\<lambda>item. - int (snd item)) items"

definition remove_items :: "(string \<times> nat) list \<Rightarrow> store \<Rightarrow> store" where
  "remove_items toDelete st = foldl (\<lambda>acc item. removeItem (fst item) acc) st toDelete"

definition cleanOldEvents :: "sdk \<Rightarrow> sdk" where
  "cleanOldEvents s =
     (case storage s of
        None \<Rightarrow> s
      | Some st \<Rightarrow>
          (case collect_items (keys st) st of
             None \<Rightarrow> s
           | Some items \<Rightarrow>
               (case config s of
                  None \<Rightarrow> s
                | Some c \<Rightarrow>
                    s\<lparr>storage :=
                        Some (remove_items (drop (maxLocalEvents c) (sort_newest_first items)) st)\<rparr>)))"

text \<open>The key \<^verbatim>\<open>`event_${Date.now()}_${Math.random()}`\<close> of a single-event record.\<close>

definition event_key :: "env \<Rightarrow> string" where
  "event_key ev = ''event_'' @ decimal (now ev) @ ''_'' @ random ev"

text \<open>\<^verbatim>\<open>saveEventLocal(event)\<close>.\<close>

definition saveEventLocal :: "env \<Rightarrow> jsval \<Rightarrow> sdk \<Rightarrow> sdk" where
  "saveEventLocal ev event s =
     (case storage s of
        None \<Rightarrow> s
      | Some st \<Rightarrow>
          if \<not> store_writable ev then s
          else
            let key = event_key ev;
                st1 = setItem key (StoredEvent event (sessionId s) (now ev) False) st;
                s1 = s\<lparr>storage := Some st1\<rparr>
            in (case config s1 of
                  None \<Rightarrow> s1
                | Some c \<Rightarrow>
                    if length (keys st1) > maxLocalEvents c then cleanOldEvents s1 else s1))"

text \<open>
  \<^verbatim>\<open>clearSyncedEvents()\<close>: the loop looks only at keys that start with \<^verbatim>\<open>event_\<close> and
  removes those whose item is marked synced. A missing item makes \<^verbatim>\<open>item.synced\<close>
  throw, which ends the loop.
\<close>

fun clear_loop :: "string list \<Rightarrow> store \<Rightarrow> store" where
  "clear_loop [] st = st"
| "clear_loop (key # ks) st =
     (if startsWith key ''event_''
      then (case getItem key st of
              None \<Rightarrow> st
            | Some item \<Rightarrow> clear_loop ks (if stored_synced item then removeItem key st else st))
      else clear_loop ks st)"

definition clearSyncedEvents :: "sdk \<Rightarrow> sdk" where
  "clearSyncedEvents s =
     (case storage s of
        None \<Rightarrow> s
      | Some st \<Rightarrow> s\<lparr>storage := Some (clear_loop (keys st) st)\<rparr>)"

section \<open>Flushing\<close>

text \<open>\<^verbatim>\<open>if (this.config.apiEndpoint)\<close>: an empty text is falsy as well.\<close>

definition has_endpoint :: "config \<Rightarrow> bool" where
  "has_endpoint c = (case apiEndpoint c of None \<Rightarrow> False | Some ep \<Rightarrow> ep \<noteq> [])"

definition events_url :: "config \<Rightarrow> sdk \<Rightarrow> string" where
  "events_url c s = template (apiEndpoint c) @ ''/sessions/'' @ template (sessionId s) @ ''/events''"

text \<open>
  The \<^verbatim>\<open>catch\<close> block of \<^verbatim>\<open>flush\<close>: the three \<^verbatim>\<open>unshift(...)\<close> calls, then the failed
  batch is saved when the local store is enabled.
\<close>

definition unshift_batch :: "batch \<Rightarrow> sdk \<Rightarrow> sdk" where
  "unshift_batch b s =
     s\<lparr>eventBuffer := b_events b @ eventBuffer s,
       customEventBuffer := b_customEvents b @ customEventBuffer s,
       errorBuffer := b_errors b @ errorBuffer s\<rparr>"

definition flush_catch :: "env \<Rightarrow> batch \<Rightarrow> sdk \<Rightarrow> sdk" where
  "flush_catch ev b s =
     (let s1 = unshift_batch b s
      in (case config s1 of
            None \<Rightarrow> s1
          | Some c \<Rightarrow> if enableLocalStorage c then saveFailedBatch ev b s1 else s1))"

text \<open>
  The end of the \<^verbatim>\<open>try\<close> block, after the delivery: the log line and
  \<^verbatim>\<open>clearSyncedEvents\<close>. (Reading the configuration when there is none throws inside
  the \<^verbatim>\<open>try\<close> block and again inside the \<^verbatim>\<open>catch\<close> block, after the \<^verbatim>\<open>unshift\<close> calls.)
\<close>

definition flush_done :: "batch \<Rightarrow> sdk \<Rightarrow> sdk" where
  "flush_done b s =
     (case config s of
        None \<Rightarrow> unshift_batch b s
      | Some c \<Rightarrow> if enableLocalStorage c then clearSyncedEvents s else s)"

definition flush_payload :: "codec \<Rightarrow> env \<Rightarrow> config \<Rightarrow> sdk \<Rightarrow> batch \<Rightarrow> payload" where
  "flush_payload cd ev c s b =
     \<lparr>p_sessionId = sessionId s, p_userId = userId s, p_appId = appId c,
      p_events = compressEvents cd (b_events b),
      p_customEvents = b_customEvents b, p_errors = b_errors b,
      p_metadata = FlushMeta (now ev) (length (b_events b)) (length (b_customEvents b))
                     (length (b_errors b))\<rparr>"

text \<open>
  \<^verbatim>\<open>flush()\<close> up to its first \<^verbatim>\<open>await\<close>. With an endpoint the function stops at
  \<^verbatim>\<open>await fetch(...)\<close>: the call is issued and the batch waits in \<open>inflight\<close> for
  \<open>fetch_settled\<close>. If \<^verbatim>\<open>JSON.stringify(payload)\<close> throws, the \<^verbatim>\<open>catch\<close> block runs at
  once. Without an endpoint nothing is sent and the \<^verbatim>\<open>try\<close> block runs to its end.
\<close>

definition flush :: "codec \<Rightarrow> env \<Rightarrow> sdk \<Rightarrow> sdk" where
  "flush cd ev s =
     (if \<not> isRecording s then s
      else
        let events = eventBuffer s;
            customEvents = customEventBuffer s;
            errors = errorBuffer s
        in if events = [] \<and> customEvents = [] \<and> errors = [] then s
           else
             (case config s of
                None \<Rightarrow> s
              | Some c \<Rightarrow>
                  let b = \<lparr>b_events = events, b_customEvents = customEvents, b_errors = errors\<rparr>;
                      s1 = (if has_endpoint c
                            then s\<lparr>eventBuffer := [], customEventBuffer := [], errorBuffer := []\<rparr>
                            else s)
                  in if has_endpoint c
                     then (case stringify_payload cd (flush_payload cd ev c s b) of
                             Inl e \<Rightarrow> flush_catch ev b s1
                           | Inr body \<Rightarrow>
                               s1\<lparr>network := network s1 @
                                     [Fetch (events_url c s)
                                        [(''Content-Type'', Some ''application/json''),
                                         (''X-API-Key'', apiKey c),
                                         (''X-Session-ID'', sessionId s)] body],
                                   inflight := inflight s1 @ [b]\<rparr>)
                     else flush_done b s1))"

text \<open>
  The answer to a pending \<^verbatim>\<open>fetch\<close>: a response with its status, or a rejection.
  \<open>fetch_settled ev i r\<close> resumes the \<open>i\<close>-th waiting flush: a response that is not
  \<^verbatim>\<open>ok\<close> throws inside the \<^verbatim>\<open>try\<close> block, as a rejection does.
\<close>

datatype response = Response nat | NetworkError

fun response_ok :: "response \<Rightarrow> bool" where
  "response_ok (Response status) = (200 \<le> status \<and> status \<le> 299)"
| "response_ok NetworkError = False"

definition fetch_settled :: "env \<Rightarrow> nat \<Rightarrow> response \<Rightarrow> sdk \<Rightarrow> sdk" where
  "fetch_settled ev i r s =
     (if i < length (inflight s)
      then
        let b = inflight s ! i;
            s1 = s\<lparr>inflight := take i (inflight s) @ drop (Suc i) (inflight s)\<rparr>
        in if response_ok r then flush_done b s1 else flush_catch ev b s1
      else s)"

text \<open>\<^verbatim>\<open>flushSync()\<close>, the unload path. Every exception of its body is caught.\<close>

definition flushSync :: "codec \<Rightarrow> env \<Rightarrow> sdk \<Rightarrow> sdk" where
  "flushSync cd ev s =
     (if \<not> isRecording s then s
      else
        let events = eventBuffer s;
            customEvents = customEventBuffer s;
            errors = errorBuffer s
        in if events = [] \<and> customEvents = [] \<and> errors = [] then s
           else
             (case config s of
                None \<Rightarrow> s
              | Some c \<Rightarrow>
                  (case stringify_payload cd
                          \<lparr>p_sessionId = sessionId s, p_userId = userId s, p_appId = appId c,
                           p_events = compressEvents cd events,
                           p_customEvents = customEvents, p_errors = errors,
                           p_metadata = FinalMeta (now ev)\<rparr> of
                     Inl e \<Rightarrow> s
                   | Inr body \<Rightarrow> s\<lparr>network := network s @ [Beacon (events_url c s) body]\<rparr>)))"

section \<open>Producers and the public interface\<close>

text \<open>
  A handler that can throw returns the exception, if any, beside the state it leaves
  behind. \<^verbatim>\<open>flush()\<close> is an \<^verbatim>\<open>async\<close> function: calling it never throws.
\<close>

text \<open>\<^verbatim>\<open>handleRRWebEvent(event, isCheckout)\<close>.\<close>

definition handleRRWebEvent :: "codec \<Rightarrow> env \<Rightarrow> jsval \<Rightarrow> sdk \<Rightarrow> js_error option \<times> sdk" where
  "handleRRWebEvent cd ev event s =
     (let s1 = s\<lparr>eventBuffer := eventBuffer s @ [event],
                 perf := (perf s)\<lparr>eventCount := eventCount (perf s) + 1\<rparr>\<rparr>
      in (case config s1 of
            None \<Rightarrow> (Some TypeError, s1)
          | Some c \<Rightarrow>
              let s2 = (if length (eventBuffer s1) \<ge> batchSize c then flush cd ev s1 else s1);
                  s3 = (if enableLocalStorage c then saveEventLocal ev event s2 else s2)
              in (None, s3)))"

text \<open>The event object built by \<^verbatim>\<open>captureCustomEvent\<close> from the sanitized payload.\<close>

definition custom_event_of :: "env \<Rightarrow> sdk \<Rightarrow> string \<Rightarrow> jsval \<Rightarrow> custom_event" where
  "custom_event_of ev s eventType d =
     \<lparr>ce_type = ''custom'', ce_eventType = eventType, ce_data = d, ce_timestamp = now ev,
      ce_sessionId = sessionId s, ce_url = href ev, ce_userAgent = userAgent ev,
      ce_viewport = (innerWidth ev, innerHeight ev)\<rparr>"

text \<open>\<^verbatim>\<open>captureCustomEvent(eventType, data)\<close>.\<close>

definition captureCustomEvent ::
  "replace_fn \<Rightarrow> codec \<Rightarrow> env \<Rightarrow> string \<Rightarrow> jsval \<Rightarrow> sdk \<Rightarrow> js_error option \<times> sdk" where
  "captureCustomEvent rp cd ev eventType data s =
     (case sanitizeData rp data of
        Inl e \<Rightarrow> (Some e, s)
      | Inr d \<Rightarrow>
          let s1 = s\<lparr>customEventBuffer := customEventBuffer s @ [custom_event_of ev s eventType d]\<rparr>
          in (None, if length (customEventBuffer s1) \<ge> 10 then flush cd ev s1 else s1))"

text \<open>The error object built by \<^verbatim>\<open>captureError\<close> from the properties of \<open>errorData\<close>.\<close>

definition error_event_of :: "env \<Rightarrow> sdk \<Rightarrow> (string \<times> jsval) list \<Rightarrow> error_event" where
  "error_event_of ev s errorData =
     \<lparr>err_props = filter (\<lambda>kv. fst kv \<notin> {''sessionId'', ''timestamp'', ''context''}) errorData,
      err_sessionId = sessionId s,
      err_timestamp =
        (case map_of errorData ''timestamp'' of
           None \<Rightarrow> JNum (int (now ev))
         | Some t \<Rightarrow> if falsy t then JNum (int (now ev)) else t),
      err_url = href ev, err_userAgent = userAgent ev\<rparr>"

text \<open>\<^verbatim>\<open>captureError(errorData)\<close>: "Errors should be sent immediately".\<close>

definition captureError :: "codec \<Rightarrow> env \<Rightarrow> (string \<times> jsval) list \<Rightarrow> sdk \<Rightarrow> sdk" where
  "captureError cd ev errorData s =
     flush cd ev (s\<lparr>errorBuffer := errorBuffer s @ [error_event_of ev s errorData]\<rparr>)"

text \<open>
  The callback that \<^verbatim>\<open>setupTimers()\<close> hands to \<^verbatim>\<open>setInterval\<close> as the batch timer, run
  every \<open>flushInterval\<close> milliseconds.
\<close>

definition batchTimer_tick :: "codec \<Rightarrow> env \<Rightarrow> sdk \<Rightarrow> sdk" where
  "batchTimer_tick cd ev s =
     (if length (eventBuffer s) > 0 \<or> length (customEventBuffer s) > 0 then flush cd ev s else s)"

text \<open>\<^verbatim>\<open>capture(eventName, data)\<close>.\<close>

definition capture ::
  "replace_fn \<Rightarrow> codec \<Rightarrow> env \<Rightarrow> string \<Rightarrow> jsval \<Rightarrow> sdk \<Rightarrow> js_error option \<times> sdk" where
  "capture rp cd ev eventName data s =
     (if \<not> isRecording s then (None, s) else captureCustomEvent rp cd ev eventName data s)"

text \<open>\<^verbatim>\<open>setUser(userId, metadata = {})\<close>: a missing \<open>metadata\<close> is the empty object.\<close>

definition setUser ::
  "replace_fn \<Rightarrow> codec \<Rightarrow> env \<Rightarrow> string \<Rightarrow> jsval \<Rightarrow> sdk \<Rightarrow> js_error option \<times> sdk" where
  "setUser rp cd ev uid metadata s =
     captureCustomEvent rp cd ev ''identify''
       (JObj [(''userId'', JStr uid),
              (''metadata'', if metadata = JUndefined then JObj [] else metadata)])
       (s\<lparr>userId := Some uid\<rparr>)"

text \<open>The own enumerable properties that an object spread \<^verbatim>\<open>{...v}\<close> copies.\<close>

fun own_props :: "jsval \<Rightarrow> (string \<times> jsval) list" where
  "own_props (JObj kvs) = kvs"
| "own_props (JArr xs) = zip (map decimal [0..<length xs]) xs"
| "own_props (JStr t) = zip (map decimal [0..<length t]) (map (\<lambda>ch. JStr [ch]) t)"
| "own_props _ = []"

text \<open>\<^verbatim>\<open>addContext(context)\<close>.\<close>

definition addContext ::
  "replace_fn \<Rightarrow> codec \<Rightarrow> env \<Rightarrow> jsval \<Rightarrow> sdk \<Rightarrow> js_error option \<times> sdk" where
  "addContext rp cd ev context s =
     captureCustomEvent rp cd ev ''context'' context
       (s\<lparr>sessionMetadata :=
            foldl (\<lambda>m kv. AList.update (fst kv) (snd kv) m) (sessionMetadata s)
              (own_props context)\<rparr>)"

text \<open>\<^verbatim>\<open>exportEvents()\<close>.\<close>

record export =
  ex_events :: "jsval list"
  ex_sessionId :: "string option"
  ex_userId :: "string option"
  ex_appId :: "string option"
  ex_startTime :: "nat option"
  ex_eventCount :: nat
  ex_customEvents :: "custom_event list"
  ex_errors :: "error_event list"

definition exportEvents :: "sdk \<Rightarrow> export" where
  "exportEvents s =
     \<lparr>ex_events = eventBuffer s, ex_sessionId = sessionId s, ex_userId = userId s,
      ex_appId = map_option appId (config s), ex_startTime = startTime (perf s),
      ex_eventCount = length (eventBuffer s),
      ex_customEvents = customEventBuffer s, ex_errors = errorBuffer s\<rparr>"

section \<open>Notions used to state the properties\<close>



text \<open>Reading a property of a JavaScript value: \<^verbatim>\<open>v[name]\<close>, where absent is \<open>None\<close>.\<close>

definition js_prop :: "string \<Rightarrow> jsval \<Rightarrow> jsval option" where
  "js_prop name v = (case v of JObj kvs \<Rightarrow> map_of kvs name | _ \<Rightarrow> None)"

text \<open>
  The events the pipeline holds: those of the batches in flight, which are older, followed
  by those in the buffers.
\<close>

definition held_visual :: "sdk \<Rightarrow> jsval list" where
  "held_visual s = concat (map b_events (inflight s)) @ eventBuffer s"

definition held_custom :: "sdk \<Rightarrow> custom_event list" where
  "held_custom s = concat (map b_customEvents (inflight s)) @ customEventBuffer s"

definition held_errors :: "sdk \<Rightarrow> error_event list" where
  "held_errors s = concat (map b_errors (inflight s)) @ errorBuffer s"




section \<open>Concrete states and environments\<close>

text \<open>The state the constructor of \<^verbatim>\<open>SpectraViewSDK\<close> builds.\<close>

definition initial :: sdk where
  "initial =
     \<lparr>config = None, sessionId = None, userId = None, isRecording = False,
      eventBuffer = [], customEventBuffer = [], errorBuffer = [], storage = None,
      sessionMetadata = [],
      perf = \<lparr>startTime = None, eventCount = 0, errorCount = 0, clickCount = 0\<rparr>,
      network = [], inflight = []\<rparr>"

text \<open>
  A configuration with the defaults of \<^verbatim>\<open>init\<close> for the batch size and the flush interval;
  the endpoint, the use of the local store and its capacity vary.
\<close>

definition config_of :: "string option \<Rightarrow> bool \<Rightarrow> nat \<Rightarrow> config" where
  "config_of ep ls k =
     \<lparr>apiKey = Some ''key'', apiEndpoint = ep, appId = ''app'', batchSize = 50,
      flushInterval = 30000, enableLocalStorage = ls, maxLocalEvents = k, debug = False\<rparr>"

text \<open>A pipeline that \<^verbatim>\<open>init\<close> has started, with nothing buffered yet.\<close>

definition recording :: "config \<Rightarrow> sdk" where
  "recording c =
     initial\<lparr>config := Some c, sessionId := Some ''s1'', isRecording := True,
             storage := (if enableLocalStorage c then Some [] else None)\<rparr>"

text \<open>A runtime in which no library call throws, and the identity in place of the regular expressions.\<close>

definition codec_ok :: codec where
  "codec_ok =
     \<lparr>stringify_events = (\<lambda>events. Inr ''[]''), deflate = (\<lambda>t. Inr []),
      fromCharCode = (\<lambda>bytes. Inr []), btoa = (\<lambda>t. Inr []),
      stringify_payload = (\<lambda>p. Inr ''{}'')\<rparr>"

definition rp_id :: replace_fn where
  "rp_id p r t = t"

definition env_at :: "nat \<Rightarrow> env" where
  "env_at t =
     \<lparr>now = t, random = ''0.5'', href = ''http://localhost/'', userAgent = ''UA'',
      innerWidth = 800, innerHeight = 600, store_writable = True\<rparr>"

text \<open>An event as the recorder emits it: \<^verbatim>\<open>{type, data, timestamp}\<close>.\<close>

definition rrweb_event :: "nat \<Rightarrow> jsval" where
  "rrweb_event t = JObj [(''type'', JNum 3), (''data'', JObj []), (''timestamp'', JNum (int t))]"














section \<open>The store operations touch nothing but the store\<close>

lemma saveFailedBatch_fields [simp]:
  "config (saveFailedBatch ev b s) = config s"
  "sessionId (saveFailedBatch ev b s) = sessionId s"
  "userId (saveFailedBatch ev b s) = userId s"
  "isRecording (saveFailedBatch ev b s) = isRecording s"
  "eventBuffer (saveFailedBatch ev b s) = eventBuffer s"
  "customEventBuffer (saveFailedBatch ev b s) = customEventBuffer s"
  "errorBuffer (saveFailedBatch ev b s) = errorBuffer s"
  "network (saveFailedBatch ev b s) = network s"
  "inflight (saveFailedBatch ev b s) = inflight s"
  by (simp_all add: saveFailedBatch_def split: option.splits)

lemma clearSyncedEvents_fields [simp]:
  "config (clearSyncedEvents s) = config s"
  "sessionId (clearSyncedEvents s) = sessionId s"
  "userId (clearSyncedEvents s) = userId s"
  "isRecording (clearSyncedEvents s) = isRecording s"
  "eventBuffer (clearSyncedEvents s) = eventBuffer s"
  "customEventBuffer (clearSyncedEvents s) = customEventBuffer s"
  "errorBuffer (clearSyncedEvents s) = errorBuffer s"
  "network (clearSyncedEvents s) = network s"
  "inflight (clearSyncedEvents s) = inflight s"
  by (simp_all add: clearSyncedEvents_def split: option.splits)

lemma cleanOldEvents_fields [simp]:
  "config (cleanOldEvents s) = config s"
  "sessionId (cleanOldEvents s) = sessionId s"
  "userId (cleanOldEvents s) = userId s"
  "isRecording (cleanOldEvents s) = isRecording s"
  "eventBuffer (cleanOldEvents s) = eventBuffer s"
  "customEventBuffer (cleanOldEvents s) = customEventBuffer s"
  "errorBuffer (cleanOldEvents s) = errorBuffer s"
  "network (cleanOldEvents s) = network s"
  "inflight (cleanOldEvents s) = inflight s"
  by (simp_all add: cleanOldEvents_def split: option.splits)

lemma saveEventLocal_fields [simp]:
  "config (saveEventLocal ev e s) = config s"
  "sessionId (saveEventLocal ev e s) = sessionId s"
  "userId (saveEventLocal ev e s) = userId s"
  "isRecording (saveEventLocal ev e s) = isRecording s"
  "eventBuffer (saveEventLocal ev e s) = eventBuffer s"
  "customEventBuffer (saveEventLocal ev e s) = customEventBuffer s"
  "errorBuffer (saveEventLocal ev e s) = errorBuffer s"
  "network (saveEventLocal ev e s) = network s"
  "inflight (saveEventLocal ev e s) = inflight s"
  by (simp_all add: saveEventLocal_def Let_def split: option.splits)

section \<open>Flushing with nothing to send, or with no endpoint\<close>

lemma flush_not_recording: "\<not> isRecording s \<Longrightarrow> flush cd ev s = s"
  by (simp add: flush_def)

text \<open>
  Without an endpoint \<^verbatim>\<open>flush\<close> sends nothing and keeps the three buffers, so
  \<^verbatim>\<open>exportEvents\<close> goes on returning what was captured.
\<close>

lemma flush_offline:
  assumes "config s = Some c" "\<not> has_endpoint c"
  shows "eventBuffer (flush cd ev s) = eventBuffer s"
    and "customEventBuffer (flush cd ev s) = customEventBuffer s"
    and "errorBuffer (flush cd ev s) = errorBuffer s"
    and "network (flush cd ev s) = network s"
  using assms by (simp_all add: flush_def flush_done_def Let_def)

text \<open>
  Claim C6. When the three buffers are empty, \<^verbatim>\<open>flush\<close> and \<^verbatim>\<open>flushSync\<close> return at
  their emptiness test: the whole state, the log of network calls included, is as before.
\<close>

theorem flush_empty_noop:
  "eventBuffer s = [] \<Longrightarrow> customEventBuffer s = [] \<Longrightarrow> errorBuffer s = [] \<Longrightarrow>
   flush cd ev s = s \<and> flushSync cd ev s = s"
  by (simp add: flush_def flushSync_def)

theorem flush_empty_noop_witness:
  "eventBuffer (recording (config_of (Some ''http://api'') True 1000)) = [] \<and>
   customEventBuffer (recording (config_of (Some ''http://api'') True 1000)) = [] \<and>
   errorBuffer (recording (config_of (Some ''http://api'') True 1000)) = [] \<and>
   flush codec_ok (env_at 5) (recording (config_of (Some ''http://api'') True 1000))
     = recording (config_of (Some ''http://api'') True 1000) \<and>
   flushSync codec_ok (env_at 5) (recording (config_of (Some ''http://api'') True 1000))
     = recording (config_of (Some ''http://api'') True 1000)"
  using flush_empty_noop
    [of "recording (config_of (Some ''http://api'') True 1000)" codec_ok "env_at 5"]
  by (simp add: recording_def initial_def)

text \<open>
  Claim C3. With no endpoint configured, \<^verbatim>\<open>flushSync\<close> does not test the endpoint as
  \<^verbatim>\<open>flush\<close>, \<^verbatim>\<open>sendSessionStart\<close>, \<^verbatim>\<open>sendHeartbeat\<close> and \<^verbatim>\<open>sendSessionEnd\<close> do: with
  one buffered event it calls \<^verbatim>\<open>navigator.sendBeacon\<close>, on an address that starts with
  the text "null".
\<close>

theorem flushSync_offline_beacon:
  "apiEndpoint (config_of None False 1000) = None \<and>
   network (flushSync codec_ok (env_at 5)
      ((recording (config_of None False 1000))\<lparr>eventBuffer := [rrweb_event 4]\<rparr>))
     = [Beacon ''null/sessions/s1/events'' ''{}'']"
  by (simp add: flushSync_def recording_def initial_def config_of_def codec_ok_def
        events_url_def template_def)

text \<open>
  Claim C4. The batch timer tests the visual and the custom buffer only: on a tick with
  both of them empty nothing is flushed, whatever the error buffer holds.
\<close>

theorem tick_ignores_errors:
  "eventBuffer s = [] \<Longrightarrow> customEventBuffer s = [] \<Longrightarrow> batchTimer_tick cd ev s = s"
  by (simp add: batchTimer_tick_def)

theorem tick_ignores_errors_witness:
  "eventBuffer ((recording (config_of (Some ''http://api'') False 1000))
       \<lparr>errorBuffer := [error_event_of (env_at 3) initial []]\<rparr>) = [] \<and>
   customEventBuffer ((recording (config_of (Some ''http://api'') False 1000))
       \<lparr>errorBuffer := [error_event_of (env_at 3) initial []]\<rparr>) = [] \<and>
   errorBuffer ((recording (config_of (Some ''http://api'') False 1000))
       \<lparr>errorBuffer := [error_event_of (env_at 3) initial []]\<rparr>) \<noteq> [] \<and>
   batchTimer_tick codec_ok (env_at 9)
     ((recording (config_of (Some ''http://api'') False 1000))
       \<lparr>errorBuffer := [error_event_of (env_at 3) initial []]\<rparr>)
     = (recording (config_of (Some ''http://api'') False 1000))
       \<lparr>errorBuffer := [error_event_of (env_at 3) initial []]\<rparr>"
  using tick_ignores_errors
    [of "(recording (config_of (Some ''http://api'') False 1000))
           \<lparr>errorBuffer := [error_event_of (env_at 3) initial []]\<rparr>" codec_ok "env_at 9"]
  by (simp add: recording_def initial_def)



text \<open>
  Claim C8. \<^verbatim>\<open>capture\<close> calls \<^verbatim>\<open>captureCustomEvent\<close>, which calls \<^verbatim>\<open>sanitizeData\<close>
  outside any \<^verbatim>\<open>try\<close> block: on a payload that holds a BigInt, and on a function, the
  exception of the deep clone reaches the caller and no event is buffered.
\<close>

theorem capture_throws:
  "capture rp_id codec_ok (env_at 5) ''checkout'' (JObj [(''total'', JBigInt 10)])
      (recording (config_of None False 1000))
     = (Some TypeError, recording (config_of None False 1000)) \<and>
   capture rp_id codec_ok (env_at 5) ''checkout'' JFunction
      (recording (config_of None False 1000))
     = (Some SyntaxError, recording (config_of None False 1000))"
  by (simp add: capture_def captureCustomEvent_def sanitizeData_def json_clone_def
        recording_def initial_def)

text \<open>
  Claim C10, as the code has it. While \<open>isRecording\<close> is false, \<^verbatim>\<open>capture\<close> returns at
  once and leaves the state as it is. \<^verbatim>\<open>setUser\<close> and \<^verbatim>\<open>addContext\<close> have no such
  test: \<^verbatim>\<open>setUser\<close> overwrites \<open>userId\<close> in every case, and each call whose payload the
  sanitizer accepts appends one custom event to \<open>customEventBuffer\<close>.
\<close>

theorem stopped_api:
  assumes "\<not> isRecording s"
  shows "capture rp cd ev name data s = (None, s) \<and>
    (\<forall>d. sanitizeData rp (JObj [(''userId'', JStr uid),
              (''metadata'', if md = JUndefined then JObj [] else md)]) = Inr d \<longrightarrow>
       setUser rp cd ev uid md s =
         (None, s\<lparr>userId := Some uid,
                  customEventBuffer := customEventBuffer s @ [custom_event_of ev s ''identify'' d]\<rparr>)) \<and>
    userId (snd (setUser rp cd ev uid md s)) = Some uid \<and>
    (\<forall>d. sanitizeData rp ctx = Inr d \<longrightarrow>
       customEventBuffer (snd (addContext rp cd ev ctx s)) =
         customEventBuffer s @ [custom_event_of ev s ''context'' d] \<and>
       fst (addContext rp cd ev ctx s) = None)"
  using assms
  by (auto simp add: capture_def setUser_def addContext_def captureCustomEvent_def Let_def
        flush_not_recording custom_event_of_def split: sum.splits)

theorem stopped_api_witness:
  "\<not> isRecording initial \<and>
   capture rp_id codec_ok (env_at 5) ''evt'' (JObj [(''a'', JNum 1)]) initial = (None, initial) \<and>
   sanitizeData rp_id (JObj [(''userId'', JStr ''user-123''),
       (''metadata'', JObj [(''plan'', JStr ''premium'')])])
     = Inr (JObj [(''userId'', JStr ''user-123''),
                  (''metadata'', JObj [(''plan'', JStr ''premium'')])]) \<and>
   setUser rp_id codec_ok (env_at 5) ''user-123'' (JObj [(''plan'', JStr ''premium'')]) initial =
     (None, initial\<lparr>userId := Some ''user-123'',
        customEventBuffer := [custom_event_of (env_at 5) initial ''identify''
           (JObj [(''userId'', JStr ''user-123''),
                  (''metadata'', JObj [(''plan'', JStr ''premium'')])])]\<rparr>) \<and>
   customEventBuffer (snd (addContext rp_id codec_ok (env_at 5)
        (JObj [(''feature'', JStr ''checkout'')]) initial)) =
     [custom_event_of (env_at 5) initial ''context'' (JObj [(''feature'', JStr ''checkout'')])]"
proof -
  have stopped: "\<not> isRecording initial"
    by (simp add: initial_def)
  have clean_user: "sanitizeData rp_id (JObj [(''userId'', JStr ''user-123''),
       (''metadata'', JObj [(''plan'', JStr ''premium'')])])
     = Inr (JObj [(''userId'', JStr ''user-123''),
                  (''metadata'', JObj [(''plan'', JStr ''premium'')])])"
    by (simp add: sanitizeData_def json_clone_def sanitizeString_def patterns_def rp_id_def)
  have clean_ctx: "sanitizeData rp_id (JObj [(''feature'', JStr ''checkout'')])
     = Inr (JObj [(''feature'', JStr ''checkout'')])"
    by (simp add: sanitizeData_def json_clone_def sanitizeString_def patterns_def rp_id_def)
  from stopped_api [OF stopped, of rp_id codec_ok "env_at 5" "''evt''" "JObj [(''a'', JNum 1)]"
      "''user-123''" "JObj [(''plan'', JStr ''premium'')]" "JObj [(''feature'', JStr ''checkout'')]"]
    stopped clean_user clean_ctx
  show ?thesis
    by (simp add: initial_def)
qed

text \<open>
  Claim C10, as stated, fails on a payload that JSON cannot serialise: in a stopped
  pipeline, \<^verbatim>\<open>setUser\<close> and \<^verbatim>\<open>addContext\<close> called with a BigInt in the payload throw a
  TypeError and append nothing (\<^verbatim>\<open>setUser\<close> has set \<open>userId\<close> by then).
\<close>

theorem stopped_api_unserialisable:
  "\<not> isRecording initial \<and>
   setUser rp_id codec_ok (env_at 5) ''user-123'' (JObj [(''quota'', JBigInt 10)]) initial
     = (Some TypeError, initial\<lparr>userId := Some ''user-123''\<rparr>) \<and>
   customEventBuffer (snd (setUser rp_id codec_ok (env_at 5) ''user-123''
      (JObj [(''quota'', JBigInt 10)]) initial)) = [] \<and>
   fst (addContext rp_id codec_ok (env_at 5) (JObj [(''quota'', JBigInt 10)]) initial)
     = Some TypeError \<and>
   customEventBuffer (snd (addContext rp_id codec_ok (env_at 5)
      (JObj [(''quota'', JBigInt 10)]) initial)) = []"
  by (simp add: setUser_def addContext_def captureCustomEvent_def sanitizeData_def
        json_clone_def initial_def)

section \<open>Flushing and settling, field by field\<close>

lemma flush_fields [simp]:
  "config (flush cd ev s) = config s"
  "sessionId (flush cd ev s) = sessionId s"
  "userId (flush cd ev s) = userId s"
  "isRecording (flush cd ev s) = isRecording s"
  by (simp_all add: flush_def flush_catch_def flush_done_def unshift_batch_def Let_def
      split: option.splits sum.splits)

lemma fetch_settled_fields [simp]:
  "config (fetch_settled ev i r s) = config s"
  "sessionId (fetch_settled ev i r s) = sessionId s"
  "userId (fetch_settled ev i r s) = userId s"
  "isRecording (fetch_settled ev i r s) = isRecording s"
  "network (fetch_settled ev i r s) = network s"
  by (simp_all add: fetch_settled_def flush_catch_def flush_done_def unshift_batch_def Let_def
      split: option.splits)

lemma fetch_settled_inflight:
  "inflight (fetch_settled ev i r s) =
     (if i < length (inflight s) then take i (inflight s) @ drop (Suc i) (inflight s)
      else inflight s)"
  by (simp add: fetch_settled_def flush_done_def flush_catch_def unshift_batch_def Let_def
      split: option.splits)

lemma fetch_settled_buffers:
  "eventBuffer (fetch_settled ev i r s) =
     (if i < length (inflight s) \<and> (\<not> response_ok r \<or> config s = None)
      then b_events (inflight s ! i) @ eventBuffer s else eventBuffer s)"
  "customEventBuffer (fetch_settled ev i r s) =
     (if i < length (inflight s) \<and> (\<not> response_ok r \<or> config s = None)
      then b_customEvents (inflight s ! i) @ customEventBuffer s else customEventBuffer s)"
  "errorBuffer (fetch_settled ev i r s) =
     (if i < length (inflight s) \<and> (\<not> response_ok r \<or> config s = None)
      then b_errors (inflight s ! i) @ errorBuffer s else errorBuffer s)"
  by (simp_all add: fetch_settled_def flush_done_def flush_catch_def unshift_batch_def Let_def
      split: option.splits)





section \<open>Facts about the concrete states\<close>


lemma recording_fields [simp]:
  "isRecording (recording c)" "config (recording c) = Some c"
  "sessionId (recording c) = Some ''s1''"
  "eventBuffer (recording c) = []" "customEventBuffer (recording c) = []"
  "errorBuffer (recording c) = []" "inflight (recording c) = []" "network (recording c) = []"
  "storage (recording c) = (if enableLocalStorage c then Some [] else None)"
  by (simp_all add: recording_def initial_def)

lemma config_of_fields [simp]:
  "has_endpoint (config_of (Some ''http://api'') ls k)"
  "enableLocalStorage (config_of ep ls k) = ls"
  "maxLocalEvents (config_of ep ls k) = k"
  "apiEndpoint (config_of ep ls k) = ep"
  "batchSize (config_of ep ls k) = 50"
  by (simp_all add: config_of_def has_endpoint_def)

lemma env_at_fields [simp]:
  "now (env_at t) = t" "store_writable (env_at t)" "random (env_at t) = ''0.5''"
  by (simp_all add: env_at_def)



section \<open>Session identifiers of buffered events\<close>

lemma flush_held:
  "held_visual (flush cd ev s) = held_visual s"
  "held_custom (flush cd ev s) = held_custom s"
  "held_errors (flush cd ev s) = held_errors s"
  by (simp_all add: flush_def flush_catch_def flush_done_def unshift_batch_def Let_def
        held_visual_def held_custom_def held_errors_def split: option.splits sum.splits)

lemma flushSync_held:
  "held_visual (flushSync cd ev s) = held_visual s"
  "held_custom (flushSync cd ev s) = held_custom s"
  "held_errors (flushSync cd ev s) = held_errors s"
  by (simp_all add: flushSync_def Let_def held_visual_def held_custom_def held_errors_def
        split: option.splits sum.splits)

lemma saveEventLocal_held [simp]:
  "held_visual (saveEventLocal ev e s) = held_visual s"
  "held_custom (saveEventLocal ev e s) = held_custom s"
  "held_errors (saveEventLocal ev e s) = held_errors s"
  by (simp_all add: held_visual_def held_custom_def held_errors_def)

lemma concat_rest_subset:
  "set (concat (map f (take i xss @ drop (Suc i) xss))) \<subseteq> set (concat (map f xss))"
  by (auto dest: in_set_takeD in_set_dropD)

lemma concat_nth_subset:
  "i < length xss \<Longrightarrow> set (f (xss ! i)) \<subseteq> set (concat (map f xss))"
  by (auto intro: nth_mem)

lemma fetch_settled_held:
  "set (held_visual (fetch_settled ev i r s)) \<subseteq> set (held_visual s)"
  "set (held_custom (fetch_settled ev i r s)) \<subseteq> set (held_custom s)"
  "set (held_errors (fetch_settled ev i r s)) \<subseteq> set (held_errors s)"
proof -
  show "set (held_visual (fetch_settled ev i r s)) \<subseteq> set (held_visual s)"
    using concat_rest_subset [of b_events i "inflight s"]
      concat_nth_subset [of i "inflight s" b_events]
    by (auto simp add: held_visual_def fetch_settled_inflight fetch_settled_buffers)
  show "set (held_custom (fetch_settled ev i r s)) \<subseteq> set (held_custom s)"
    using concat_rest_subset [of b_customEvents i "inflight s"]
      concat_nth_subset [of i "inflight s" b_customEvents]
    by (auto simp add: held_custom_def fetch_settled_inflight fetch_settled_buffers)
  show "set (held_errors (fetch_settled ev i r s)) \<subseteq> set (held_errors s)"
    using concat_rest_subset [of b_errors i "inflight s"]
      concat_nth_subset [of i "inflight s" b_errors]
    by (auto simp add: held_errors_def fetch_settled_inflight fetch_settled_buffers)
qed

text \<open>
  Claim C9, as the code has it. A custom event and an error event are built with the
  session identifier of the moment and join the events the pipeline holds; a visual event
  joins them as the recorder emitted it, with nothing attached. No operation changes an
  event it holds: enqueueing appends one event and leaves the others, a flush moves the
  buffers into a batch in flight, and a settled flush puts its batch back or drops it.
\<close>

theorem buffered_events_session:
  "(\<forall>d. sanitizeData rp data = Inr d \<longrightarrow>
      held_custom (snd (captureCustomEvent rp cd ev ty data s))
        = held_custom s @ [custom_event_of ev s ty d] \<and>
      ce_sessionId (custom_event_of ev s ty d) = sessionId s \<and>
      held_visual (snd (captureCustomEvent rp cd ev ty data s)) = held_visual s \<and>
      held_errors (snd (captureCustomEvent rp cd ev ty data s)) = held_errors s) \<and>
   held_errors (captureError cd ev errorData s) = held_errors s @ [error_event_of ev s errorData] \<and>
   err_sessionId (error_event_of ev s errorData) = sessionId s \<and>
   held_visual (captureError cd ev errorData s) = held_visual s \<and>
   held_custom (captureError cd ev errorData s) = held_custom s \<and>
   held_visual (snd (handleRRWebEvent cd ev event s)) = held_visual s @ [event] \<and>
   held_custom (snd (handleRRWebEvent cd ev event s)) = held_custom s \<and>
   held_errors (snd (handleRRWebEvent cd ev event s)) = held_errors s \<and>
   held_visual (flush cd ev s) = held_visual s \<and>
   held_custom (flush cd ev s) = held_custom s \<and>
   held_errors (flush cd ev s) = held_errors s \<and>
   held_visual (flushSync cd ev s) = held_visual s \<and>
   held_custom (flushSync cd ev s) = held_custom s \<and>
   held_errors (flushSync cd ev s) = held_errors s \<and>
   set (held_visual (fetch_settled ev i r s)) \<subseteq> set (held_visual s) \<and>
   set (held_custom (fetch_settled ev i r s)) \<subseteq> set (held_custom s) \<and>
   set (held_errors (fetch_settled ev i r s)) \<subseteq> set (held_errors s)"
proof -
  have custom: "\<forall>d. sanitizeData rp data = Inr d \<longrightarrow>
      held_custom (snd (captureCustomEvent rp cd ev ty data s))
        = held_custom s @ [custom_event_of ev s ty d] \<and>
      ce_sessionId (custom_event_of ev s ty d) = sessionId s \<and>
      held_visual (snd (captureCustomEvent rp cd ev ty data s)) = held_visual s \<and>
      held_errors (snd (captureCustomEvent rp cd ev ty data s)) = held_errors s"
    by (simp add: captureCustomEvent_def Let_def flush_held custom_event_of_def)
       (simp add: held_custom_def held_visual_def held_errors_def)
  have errors: "held_errors (captureError cd ev errorData s)
        = held_errors s @ [error_event_of ev s errorData] \<and>
      err_sessionId (error_event_of ev s errorData) = sessionId s \<and>
      held_visual (captureError cd ev errorData s) = held_visual s \<and>
      held_custom (captureError cd ev errorData s) = held_custom s"
    by (simp add: captureError_def flush_held error_event_of_def)
       (simp add: held_custom_def held_visual_def held_errors_def)
  have visual: "held_visual (snd (handleRRWebEvent cd ev event s)) = held_visual s @ [event] \<and>
      held_custom (snd (handleRRWebEvent cd ev event s)) = held_custom s \<and>
      held_errors (snd (handleRRWebEvent cd ev event s)) = held_errors s"
    by (simp add: handleRRWebEvent_def Let_def flush_held split: option.splits)
       (simp add: held_custom_def held_visual_def held_errors_def)
  from custom errors visual flush_held [of cd ev s] flushSync_held [of cd ev s]
    fetch_settled_held [of ev i r s]
  show ?thesis
    by blast
qed

theorem buffered_events_session_witness:
  "sanitizeData rp_id (JObj [(''a'', JNum 1)]) = Inr (JObj [(''a'', JNum 1)]) \<and>
   held_custom (snd (captureCustomEvent rp_id codec_ok (env_at 15) ''evt'' (JObj [(''a'', JNum 1)])
      (recording (config_of (Some ''http://api'') False 1000))))
     = [custom_event_of (env_at 15) (recording (config_of (Some ''http://api'') False 1000))
          ''evt'' (JObj [(''a'', JNum 1)])] \<and>
   ce_sessionId (custom_event_of (env_at 15) (recording (config_of (Some ''http://api'') False 1000))
      ''evt'' (JObj [(''a'', JNum 1)])) = Some ''s1'' \<and>
   held_errors (captureError codec_ok (env_at 15) [(''message'', JStr ''first'')]
      (recording (config_of (Some ''http://api'') False 1000)))
     = [error_event_of (env_at 15) (recording (config_of (Some ''http://api'') False 1000))
          [(''message'', JStr ''first'')]] \<and>
   held_visual (snd (handleRRWebEvent codec_ok (env_at 15) (rrweb_event 15)
      (recording (config_of (Some ''http://api'') False 1000)))) = [rrweb_event 15]"
proof -
  have clean: "sanitizeData rp_id (JObj [(''a'', JNum 1)]) = Inr (JObj [(''a'', JNum 1)])"
    by (simp add: sanitizeData_def json_clone_def)
  have empty: "held_custom (recording (config_of (Some ''http://api'') False 1000)) = []"
    "held_errors (recording (config_of (Some ''http://api'') False 1000)) = []"
    "held_visual (recording (config_of (Some ''http://api'') False 1000)) = []"
    by (simp_all add: held_custom_def held_errors_def held_visual_def)
  from buffered_events_session [where rp = rp_id and data = "JObj [(''a'', JNum 1)]"
      and cd = codec_ok and ev = "env_at 15" and ty = "''evt''"
      and s = "recording (config_of (Some ''http://api'') False 1000)"
      and errorData = "[(''message'', JStr ''first'')]" and event = "rrweb_event 15"]
    clean empty
  show ?thesis
    by (simp add: custom_event_of_def)
qed

text \<open>
  Claim C9, as stated, fails on visual events: \<^verbatim>\<open>handleRRWebEvent\<close> buffers the raw
  event of the recorder, which has no \<^verbatim>\<open>sessionId\<close> property, while a session is active.
\<close>

theorem visual_event_without_sessionId:
  "sessionId (recording (config_of None False 1000)) = Some ''s1'' \<and>
   eventBuffer (snd (handleRRWebEvent codec_ok (env_at 5) (rrweb_event 4)
      (recording (config_of None False 1000)))) = [rrweb_event 4] \<and>
   js_prop ''sessionId'' (rrweb_event 4) = None"
  by (simp add: handleRRWebEvent_def recording_def initial_def config_of_def js_prop_def
      rrweb_event_def)

section \<open>What a successful delivery removes from the store\<close>










section \<open>A failed batch returns to the front of the buffers\<close>








section \<open>Eviction from the local store\<close>


























end
